theory Spec2Isabelle
  imports Complex_Main
begin

section \<open>Python values\<close>

text \<open>
  The news parser of \<^verbatim>\<open>NewsAnalyzer.py\<close> works on dynamically typed values: the
  dictionaries and lists that \<^verbatim>\<open>json.loads\<close> returns, the strings and \<^verbatim>\<open>None\<close>s of a
  CSV row, and the exceptions raised when a value has the wrong type.

  \<^item> A Python \<^verbatim>\<open>str\<close> is a \<open>string\<close>; one \<open>char\<close> stands for one code point, so the
    development covers text over the code points below 256.
  \<^item> A Python \<^verbatim>\<open>float\<close> is the rational number it denotes, or one of the three special
    values. Rounding to binary64 and the sign of zero are not represented.
  \<^item> A \<^verbatim>\<open>dict\<close> with string keys is an association list in insertion order.
  \<^item> A raised exception is the \<open>Inl\<close> of a sum. Two values of \<open>pyerr\<close> are not Python
    exceptions: \<open>Unmodelled\<close> marks an input whose result has no representation here (a
    \<^verbatim>\<open>\u\<close> escape for a code point above 255), and \<open>Exhausted\<close> an iteration bound
    that ran out.
\<close>

datatype pyerr =
  JSONDecodeError | ValueError | TypeError | AttributeError | KeyError | IndexError
  | OverflowError | FileExistsError | Unmodelled | Exhausted

datatype pyfloat = Finite rat | PosInf | NegInf | NaN

datatype json =
  JNull | JBool bool | JInt int | JFloat pyfloat | JStr string
  | JArr "json list" | JObj "(string \<times> json) list"

subsection \<open>Strings\<close>

definition code_point :: "char \<Rightarrow> nat" where
  "code_point c = of_char c"

text \<open>\<^verbatim>\<open>str.isspace\<close> on the code points below 256.\<close>

definition py_isspace :: "char \<Rightarrow> bool" where
  "py_isspace c = (code_point c \<in> set [9, 10, 11, 12, 13, 28, 29, 30, 31, 32, 133, 160])"

text \<open>\<^verbatim>\<open>s.strip()\<close>\<close>

definition strip :: "string \<Rightarrow> string" where
  "strip s = rev (dropWhile py_isspace (rev (dropWhile py_isspace s)))"

text \<open>\<^verbatim>\<open>s.startswith(p)\<close>\<close>

definition startswith :: "string \<Rightarrow> string \<Rightarrow> bool" where
  "startswith s p = (take (length p) s = p)"

text \<open>\<^verbatim>\<open>s[a:-b]\<close> for \<open>a \<ge> 0\<close> and \<open>b > 0\<close>: empty when the two ends cross.\<close>

definition slice_neg :: "string \<Rightarrow> nat \<Rightarrow> nat \<Rightarrow> string" where
  "slice_neg s a b = drop a (take (length s - b) s)"

text \<open>\<^verbatim>\<open>s.lower()\<close> on the code points below 256.\<close>

definition lower_char :: "char \<Rightarrow> char" where
  "lower_char c =
     (let n = code_point c
      in if (65 \<le> n \<and> n \<le> 90) \<or> (192 \<le> n \<and> n \<le> 222 \<and> n \<noteq> 215)
         then char_of (n + 32) else c)"

definition lower :: "string \<Rightarrow> string" where
  "lower s = map lower_char s"

subsection \<open>Decimal numerals\<close>

definition is_digit :: "char \<Rightarrow> bool" where
  "is_digit c = (48 \<le> code_point c \<and> code_point c \<le> 57)"

definition digit_val :: "char \<Rightarrow> nat" where
  "digit_val c = code_point c - 48"

definition nat_of_digits :: "string \<Rightarrow> nat" where
  "nat_of_digits ds = foldl (\<lambda>a c. 10 * a + digit_val c) 0 ds"

definition pow10 :: "int \<Rightarrow> rat" where
  "pow10 e = (if 0 \<le> e then 10 ^ nat e else 1 / 10 ^ nat (- e))"

text \<open>The number written as sign, integer digits, fraction digits and exponent.\<close>

definition decimal_value :: "bool \<Rightarrow> string \<Rightarrow> string \<Rightarrow> int \<Rightarrow> rat" where
  "decimal_value neg ip fp e =
     (if neg then - 1 else 1) * (of_nat (nat_of_digits (ip @ fp)) / 10 ^ length fp) * pow10 e"

definition split_sign :: "string \<Rightarrow> bool \<times> string" where
  "split_sign s =
     (case s of
        [] \<Rightarrow> (False, s)
      | c # t \<Rightarrow> if c = CHR ''-'' then (True, t) else if c = CHR ''+'' then (False, t)
                 else (False, s))"

subsection \<open>The built-in \<^verbatim>\<open>float()\<close>\<close>

text \<open>
  \<^verbatim>\<open>float(str)\<close> strips white space, accepts one underscore between two digits, an
  optional sign, and then \<^verbatim>\<open>inf\<close>, \<^verbatim>\<open>infinity\<close> or \<^verbatim>\<open>nan\<close> in any case, or a decimal
  numeral with an optional fraction and exponent. Anything else is a \<^verbatim>\<open>ValueError\<close>.
\<close>

fun underscores_ok :: "char \<Rightarrow> string \<Rightarrow> bool" where
  "underscores_ok prev [] = (prev \<noteq> CHR ''_'')"
| "underscores_ok prev (c # cs) =
     (if c = CHR ''_'' then is_digit prev \<and> underscores_ok c cs
      else if prev = CHR ''_'' then is_digit c \<and> underscores_ok c cs
      else underscores_ok c cs)"

definition exponent_part :: "string \<Rightarrow> int option" where
  "exponent_part r =
     (case r of
        [] \<Rightarrow> Some 0
      | c # t \<Rightarrow>
          if c = CHR ''e'' \<or> c = CHR ''E'' then
            (let (neg, ds) = split_sign t
             in if ds \<noteq> [] \<and> list_all is_digit ds
                then Some ((if neg then - 1 else 1) * int (nat_of_digits ds))
                else None)
          else None)"

definition float_literal :: "bool \<Rightarrow> string \<Rightarrow> pyfloat option" where
  "float_literal neg s =
     (let ip = takeWhile is_digit s;
          r1 = dropWhile is_digit s;
          dot = (r1 \<noteq> [] \<and> hd r1 = CHR ''.'');
          fp = (if dot then takeWhile is_digit (tl r1) else []);
          r2 = (if dot then dropWhile is_digit (tl r1) else r1)
      in if ip = [] \<and> fp = [] then None
         else (case exponent_part r2 of
                 None \<Rightarrow> None
               | Some e \<Rightarrow> Some (Finite (decimal_value neg ip fp e))))"

definition float_of_str :: "string \<Rightarrow> pyfloat option" where
  "float_of_str s =
     (let t = strip s
      in if \<not> underscores_ok (CHR 0x00) t then None
         else
           (let (neg, body) = split_sign (filter (\<lambda>c. c \<noteq> CHR ''_'') t);
                word = lower body
            in if word = ''inf'' \<or> word = ''infinity'' then Some (if neg then NegInf else PosInf)
               else if word = ''nan'' then Some NaN
               else float_literal neg body))"

text \<open>
  \<^verbatim>\<open>float(x)\<close> for a value that came out of \<^verbatim>\<open>json.loads\<close>. An \<^verbatim>\<open>int\<close> that rounds
  beyond the largest binary64 number raises \<^verbatim>\<open>OverflowError\<close>; \<^verbatim>\<open>None\<close>, a list and a
  dictionary raise \<^verbatim>\<open>TypeError\<close>.
\<close>

definition py_float :: "json \<Rightarrow> pyerr + pyfloat" where
  "py_float v =
     (case v of
        JFloat f \<Rightarrow> Inr f
      | JInt i \<Rightarrow> if 2 ^ 1024 - 2 ^ 970 \<le> \<bar>i\<bar> then Inl OverflowError
                  else Inr (Finite (of_int i))
      | JBool b \<Rightarrow> Inr (Finite (if b then 1 else 0))
      | JStr s \<Rightarrow> (case float_of_str s of None \<Rightarrow> Inl ValueError | Some f \<Rightarrow> Inr f)
      | JNull \<Rightarrow> Inl TypeError
      | JArr xs \<Rightarrow> Inl TypeError
      | JObj d \<Rightarrow> Inl TypeError)"

section \<open>\<^verbatim>\<open>json.loads\<close>\<close>

text \<open>
  The decoder of the standard library, as \<^verbatim>\<open>analyze_news_with_llm\<close> calls it (default
  options, strict mode): white space is one of space, tab, line feed and carriage return;
  a number without fraction and exponent is an \<^verbatim>\<open>int\<close>; \<^verbatim>\<open>NaN\<close>, \<^verbatim>\<open>Infinity\<close> and
  \<^verbatim>\<open>-Infinity\<close> are accepted; a repeated key keeps its first position and its last value;
  text after the value is an error.
\<close>

definition json_ws :: "char \<Rightarrow> bool" where
  "json_ws c = (c = CHR '' '' \<or> c = CHR 0x09 \<or> c = CHR 0x0A \<or> c = CHR 0x0D)"

definition skip_ws :: "string \<Rightarrow> string" where
  "skip_ws s = dropWhile json_ws s"

definition hex_val :: "char \<Rightarrow> nat option" where
  "hex_val c =
     (let n = code_point c
      in if 48 \<le> n \<and> n \<le> 57 then Some (n - 48)
         else if 97 \<le> n \<and> n \<le> 102 then Some (n - 87)
         else if 65 \<le> n \<and> n \<le> 70 then Some (n - 55)
         else None)"

definition hex4 :: "string \<Rightarrow> nat option" where
  "hex4 s =
     (case map hex_val (take 4 s) of
        [Some a, Some b, Some c, Some d] \<Rightarrow> Some (((a * 16 + b) * 16 + c) * 16 + d)
      | _ \<Rightarrow> None)"

definition unescape :: "char \<Rightarrow> char option" where
  "unescape e =
     (if e = CHR 0x22 \<or> e = CHR 0x5C \<or> e = CHR ''/'' then Some e
      else if e = CHR ''b'' then Some (CHR 0x08)
      else if e = CHR ''f'' then Some (CHR 0x0C)
      else if e = CHR ''n'' then Some (CHR 0x0A)
      else if e = CHR ''r'' then Some (CHR 0x0D)
      else if e = CHR ''t'' then Some (CHR 0x09)
      else None)"

text \<open>The characters of a string literal after its opening quote, and the text after it.\<close>

fun scanstring :: "string \<Rightarrow> string \<Rightarrow> pyerr + (string \<times> string)" where
  "scanstring [] acc = Inl JSONDecodeError"
| "scanstring [c] acc = (if c = CHR 0x22 then Inr (acc, []) else Inl JSONDecodeError)"
| "scanstring (c # e # r) acc =
     (if c = CHR 0x22 then Inr (acc, e # r)
      else if c = CHR 0x5C then
        (if e = CHR ''u'' then
           (case hex4 r of
              None \<Rightarrow> Inl JSONDecodeError
            | Some v \<Rightarrow> if v < 256 then scanstring (drop 4 r) (acc @ [char_of v])
                        else Inl Unmodelled)
         else (case unescape e of
                 None \<Rightarrow> Inl JSONDecodeError
               | Some ch \<Rightarrow> scanstring r (acc @ [ch])))
      else if code_point c < 32 then Inl JSONDecodeError
      else scanstring (e # r) (acc @ [c]))"

text \<open>
  A number at the start of the text, by the three groups of the decoder's pattern
  \<^verbatim>\<open>(-?(?:0|[1-9][0-9]*))(\.[0-9]+)?([eE][-+]?[0-9]+)?\<close>: the digits of the integer
  part, the digits of the fraction (none when the group does not match) and the exponent,
  each with the text after it.
\<close>

definition number_int :: "string \<Rightarrow> (string \<times> string) option" where
  "number_int s =
     (if s = [] \<or> \<not> is_digit (hd s) then None
      else
        (let ip = (if hd s = CHR ''0'' then ''0'' else takeWhile is_digit s)
         in Some (ip, drop (length ip) s)))"

definition number_frac :: "string \<Rightarrow> string \<times> string" where
  "number_frac s =
     (let fp = (if s \<noteq> [] \<and> hd s = CHR ''.'' then takeWhile is_digit (tl s) else [])
      in (fp, if fp = [] then s else drop (Suc (length fp)) s))"

definition number_exp :: "string \<Rightarrow> (int \<times> string) option" where
  "number_exp s =
     (if s \<noteq> [] \<and> (hd s = CHR ''e'' \<or> hd s = CHR ''E'') then
        (let (neg, r) = split_sign (tl s);
             ds = takeWhile is_digit r
         in if ds = [] then None
            else Some ((if neg then - 1 else 1) * int (nat_of_digits ds), drop (length ds) r))
      else None)"

definition scan_number :: "string \<Rightarrow> (json \<times> string) option" where
  "scan_number s =
     (let neg = (s \<noteq> [] \<and> hd s = CHR ''-'')
      in case number_int (if neg then tl s else s) of
           None \<Rightarrow> None
         | Some (ip, r1) \<Rightarrow>
             (case number_frac r1 of
                (fp, r2) \<Rightarrow>
                  (case number_exp r2 of
                     None \<Rightarrow>
                       if fp = []
                       then Some (JInt ((if neg then - 1 else 1) * int (nat_of_digits ip)), r1)
                       else Some (JFloat (Finite (decimal_value neg ip fp 0)), r2)
                   | Some (e, r3) \<Rightarrow>
                       Some (JFloat (Finite (decimal_value neg ip fp e)), r3))))"

text \<open>\<^verbatim>\<open>dict[k] = v\<close>: a new key goes last, a known key keeps its place.\<close>

fun dict_set :: "(string \<times> json) list \<Rightarrow> string \<Rightarrow> json \<Rightarrow> (string \<times> json) list" where
  "dict_set [] k v = [(k, v)]"
| "dict_set ((k', v') # d) k v =
     (if k' = k then (k, v) # d else (k', v') # dict_set d k v)"

text \<open>
  The recursive descent of the scanner. Each call consumes one unit of a bound; the
  bound that \<open>json_loads\<close> gives is never exhausted (lemma \<open>json_loads_not_exhausted\<close>).
  The recursion limit of the interpreter, which a deeply nested text can reach, is not
  represented.
\<close>

fun scan_once :: "nat \<Rightarrow> string \<Rightarrow> pyerr + (json \<times> string)"
  and array_items :: "nat \<Rightarrow> string \<Rightarrow> json list \<Rightarrow> pyerr + (json \<times> string)"
  and object_items :: "nat \<Rightarrow> string \<Rightarrow> (string \<times> json) list \<Rightarrow> pyerr + (json \<times> string)"
where
  "scan_once 0 s = Inl Exhausted"
| "scan_once (Suc n) s =
     (if s = [] then Inl JSONDecodeError
      else if hd s = CHR 0x22 then
        (case scanstring (tl s) [] of
           Inl e \<Rightarrow> Inl e
         | Inr (str, rest) \<Rightarrow> Inr (JStr str, rest))
      else if hd s = CHR ''{'' then
        (let s1 = skip_ws (tl s)
         in if s1 \<noteq> [] \<and> hd s1 = CHR ''}'' then Inr (JObj [], tl s1)
            else object_items n s1 [])
      else if hd s = CHR ''['' then
        (let s1 = skip_ws (tl s)
         in if s1 \<noteq> [] \<and> hd s1 = CHR '']'' then Inr (JArr [], tl s1)
            else array_items n s1 [])
      else if take 4 s = ''null'' then Inr (JNull, drop 4 s)
      else if take 4 s = ''true'' then Inr (JBool True, drop 4 s)
      else if take 5 s = ''false'' then Inr (JBool False, drop 5 s)
      else
        (case scan_number s of
           Some r \<Rightarrow> Inr r
         | None \<Rightarrow>
             if take 3 s = ''NaN'' then Inr (JFloat NaN, drop 3 s)
             else if take 8 s = ''Infinity'' then Inr (JFloat PosInf, drop 8 s)
             else if take 9 s = ''-Infinity'' then Inr (JFloat NegInf, drop 9 s)
             else Inl JSONDecodeError))"
| "array_items 0 s acc = Inl Exhausted"
| "array_items (Suc n) s acc =
     (case scan_once n s of
        Inl e \<Rightarrow> Inl e
      | Inr (v, rest) \<Rightarrow>
          (let s1 = skip_ws rest
           in if s1 = [] then Inl JSONDecodeError
              else if hd s1 = CHR '']'' then Inr (JArr (acc @ [v]), tl s1)
              else if hd s1 = CHR '','' then array_items n (skip_ws (tl s1)) (acc @ [v])
              else Inl JSONDecodeError))"
| "object_items 0 s acc = Inl Exhausted"
| "object_items (Suc n) s acc =
     (if s = [] \<or> hd s \<noteq> CHR 0x22 then Inl JSONDecodeError
      else
        (case scanstring (tl s) [] of
           Inl e \<Rightarrow> Inl e
         | Inr (k, r1) \<Rightarrow>
             (let s1 = skip_ws r1
              in if s1 = [] \<or> hd s1 \<noteq> CHR '':'' then Inl JSONDecodeError
                 else
                   (case scan_once n (skip_ws (tl s1)) of
                      Inl e \<Rightarrow> Inl e
                    | Inr (v, r2) \<Rightarrow>
                        (let s2 = skip_ws r2
                         in if s2 = [] then Inl JSONDecodeError
                            else if hd s2 = CHR ''}'' then Inr (JObj (dict_set acc k v), tl s2)
                            else if hd s2 = CHR '','' then
                              object_items n (skip_ws (tl s2)) (dict_set acc k v)
                            else Inl JSONDecodeError)))))"

definition json_loads :: "string \<Rightarrow> pyerr + json" where
  "json_loads s =
     (case scan_once (2 * length s + 1) (skip_ws s) of
        Inl e \<Rightarrow> Inl e
      | Inr (v, rest) \<Rightarrow> if skip_ws rest = [] then Inr v else Inl JSONDecodeError)"

section \<open>The world outside the program\<close>

text \<open>
  A file that holds JSON text is represented by the value the text decodes to, together
  with the layout options it was written with; any other file content, and a file that
  cannot be opened, is \<open>Unreadable\<close>. The file system is a flat map from path names to
  contents.
\<close>

datatype filedata =
  Unreadable
  | JsonText (doc: json) (indent: "nat option") (ensure_ascii: bool)

text \<open>
  What the program does to the outside besides writing files, in order: a request sent
  to the backend, or a \<^verbatim>\<open>time.sleep\<close> of some duration.
\<close>

datatype event = Request | Sleep rat

record world =
  files :: "string \<Rightarrow> filedata option"
  trace :: "event list"
  ticks :: nat

text \<open>The number of requests sent so far.\<close>

definition requests :: "world \<Rightarrow> nat" where
  "requests w = count_list (trace w) Request"

text \<open>One HTTP request of \<^verbatim>\<open>call_llm\<close>: \<^verbatim>\<open>requests.post(url, headers=..., json=...)\<close>.\<close>

record request =
  url :: string
  hdrs :: "(string \<times> json) list"
  payload :: json

text \<open>
  What the program cannot decide itself: the outcome of the \<open>n\<close>-th request (the text
  extracted from the response, or the exception raised by the post, by
  \<^verbatim>\<open>raise_for_status\<close> or by the extraction), the text of \<^verbatim>\<open>datetime.now().isoformat()\<close>
  at the \<open>n\<close>-th reading of the clock, and the text \<^verbatim>\<open>str()\<close> gives for a number, a list
  or a dictionary.
\<close>

record env =
  provider :: "nat \<Rightarrow> request \<Rightarrow> pyerr + string"
  clock :: "nat \<Rightarrow> string"
  str_of :: "json \<Rightarrow> string"

definition sleep :: "rat \<Rightarrow> world \<Rightarrow> world" where
  "sleep d w = w\<lparr>trace := trace w @ [Sleep d]\<rparr>"

definition jopt :: "string option \<Rightarrow> json" where
  "jopt v = (case v of None \<Rightarrow> JNull | Some s \<Rightarrow> JStr s)"

text \<open>A value inside an f-string.\<close>

definition fmt_opt :: "string option \<Rightarrow> string" where
  "fmt_opt v = (case v of None \<Rightarrow> ''None'' | Some s \<Rightarrow> s)"

definition py_str :: "env \<Rightarrow> json \<Rightarrow> string" where
  "py_str env v =
     (case v of
        JStr s \<Rightarrow> s
      | JNull \<Rightarrow> ''None''
      | JBool b \<Rightarrow> (if b then ''True'' else ''False'')
      | JInt i \<Rightarrow> str_of env v
      | JFloat f \<Rightarrow> str_of env v
      | JArr xs \<Rightarrow> str_of env v
      | JObj d \<Rightarrow> str_of env v)"

section \<open>\<^verbatim>\<open>LLMNewsParser\<close>\<close>

text \<open>
  The attributes of the object. \<^verbatim>\<open>setup_llm_config\<close> assigns \<^verbatim>\<open>api_url\<close>,
  \<^verbatim>\<open>model_name\<close> and \<^verbatim>\<open>headers\<close> only in the branch of a provider it knows, so each is
  optional: \<open>None\<close> is an attribute that was never assigned, and reading it raises
  \<^verbatim>\<open>AttributeError\<close>.
\<close>

record parser =
  api_key :: "string option"
  model_provider :: string
  output_dir :: string
  api_url :: "string option"
  model_name :: "string option"
  headers :: "(string \<times> json) list option"

definition setup_llm_config :: "parser \<Rightarrow> parser" where
  "setup_llm_config p =
     (if model_provider p = ''openai'' then
        p\<lparr>api_url := Some ''https://api.openai.com/v1/chat/completions'',
          model_name := Some ''gpt-3.5-turbo'',
          headers := Some [(''Authorization'', JStr (''Bearer '' @ fmt_opt (api_key p))),
                           (''Content-Type'', JStr ''application/json'')]\<rparr>
      else if model_provider p = ''anthropic'' then
        p\<lparr>api_url := Some ''https://api.anthropic.com/v1/messages'',
          model_name := Some ''claude-3-haiku-20240307'',
          headers := Some [(''x-api-key'', jopt (api_key p)),
                           (''Content-Type'', JStr ''application/json''),
                           (''anthropic-version'', JStr ''2023-06-01'')]\<rparr>
      else if model_provider p = ''ollama'' then
        p\<lparr>api_url := Some ''http://localhost:11434/api/generate'',
          model_name := Some ''llama2'',
          headers := Some [(''Content-Type'', JStr ''application/json'')]\<rparr>
      else if model_provider p = ''huggingface'' then
        p\<lparr>api_url :=
            Some ''https://api-inference.huggingface.co/models/microsoft/DialoGPT-medium'',
          headers := Some [(''Authorization'', JStr (''Bearer '' @ fmt_opt (api_key p))),
                           (''Content-Type'', JStr ''application/json'')]\<rparr>
      else p)"

text \<open>
  \<^verbatim>\<open>__init__\<close>. \<^verbatim>\<open>os.makedirs(output_dir, exist_ok=True)\<close> raises when the name is taken
  by a regular file; nothing else in the constructor raises.
\<close>

definition init :: "string option \<Rightarrow> string \<Rightarrow> world \<Rightarrow> pyerr + parser" where
  "init key name w =
     (if files w ''company_news'' \<noteq> None then Inl FileExistsError
      else Inr (setup_llm_config
             \<lparr>api_key = key, model_provider = lower name, output_dir = ''company_news'',
              api_url = None, model_name = None, headers = None\<rparr>))"

subsection \<open>\<^verbatim>\<open>call_llm\<close>\<close>

definition user_messages :: "string \<Rightarrow> json" where
  "user_messages prompt = JArr [JObj [(''role'', JStr ''user''), (''content'', JStr prompt)]]"

definition build_payload :: "parser \<Rightarrow> string \<Rightarrow> pyerr + json" where
  "build_payload p prompt =
     (if model_provider p = ''openai'' then
        (case model_name p of
           None \<Rightarrow> Inl AttributeError
         | Some m \<Rightarrow> Inr (JObj [(''model'', JStr m), (''messages'', user_messages prompt),
                               (''temperature'', JFloat (Finite (1 / 10))),
                               (''max_tokens'', JInt 1000)]))
      else if model_provider p = ''anthropic'' then
        (case model_name p of
           None \<Rightarrow> Inl AttributeError
         | Some m \<Rightarrow> Inr (JObj [(''model'', JStr m), (''max_tokens'', JInt 1000),
                               (''messages'', user_messages prompt)]))
      else if model_provider p = ''ollama'' then
        (case model_name p of
           None \<Rightarrow> Inl AttributeError
         | Some m \<Rightarrow> Inr (JObj [(''model'', JStr m), (''prompt'', JStr prompt),
                               (''stream'', JBool False)]))
      else
        Inr (JObj [(''inputs'', JStr prompt),
                   (''parameters'', JObj [(''max_new_tokens'', JInt 1000),
                                          (''temperature'', JFloat (Finite (1 / 10)))])]))"

text \<open>
  The body of the \<^verbatim>\<open>try\<close>: the payload, then the request. Reading an attribute that was
  never assigned raises before anything is sent.
\<close>

definition try_request :: "env \<Rightarrow> parser \<Rightarrow> string \<Rightarrow> world \<Rightarrow> (pyerr + string) \<times> world" where
  "try_request env p prompt w =
     (case build_payload p prompt of
        Inl e \<Rightarrow> (Inl e, w)
      | Inr body \<Rightarrow>
          (case api_url p of
             None \<Rightarrow> (Inl AttributeError, w)
           | Some u \<Rightarrow>
               (case headers p of
                  None \<Rightarrow> (Inl AttributeError, w)
                | Some h \<Rightarrow>
                    (provider env (requests w) \<lparr>url = u, hdrs = h, payload = body\<rparr>,
                     w\<lparr>trace := trace w @ [Request]\<rparr>))))"

text \<open>
  \<^verbatim>\<open>for attempt in range(max_retries)\<close>: the first text is returned; an exception is
  caught, and followed by a sleep of \<open>2 ^ attempt\<close> unless the attempt was the last.
\<close>

fun call_llm_loop ::
  "env \<Rightarrow> parser \<Rightarrow> string \<Rightarrow> int \<Rightarrow> nat list \<Rightarrow> world \<Rightarrow> string option \<times> world"
where
  "call_llm_loop env p prompt max_retries [] w = (None, w)"
| "call_llm_loop env p prompt max_retries (i # rest) w =
     (case try_request env p prompt w of
        (Inr text, w1) \<Rightarrow> (Some text, w1)
      | (Inl e, w1) \<Rightarrow>
          if int i < max_retries - 1
          then call_llm_loop env p prompt max_retries rest (sleep (2 ^ i) w1)
          else (None, w1))"

definition call_llm :: "env \<Rightarrow> parser \<Rightarrow> string \<Rightarrow> int \<Rightarrow> world \<Rightarrow> string option \<times> world" where
  "call_llm env p prompt max_retries w =
     call_llm_loop env p prompt max_retries [0..<nat max_retries] w"

subsection \<open>\<^verbatim>\<open>analyze_news_with_llm\<close>\<close>

definition unlines :: "string list \<Rightarrow> string" where
  "unlines ls = concat (map (\<lambda>l. l @ [CHR 0x0A]) ls)"

definition build_prompt :: "string \<Rightarrow> string option \<Rightarrow> string" where
  \<open>build_prompt headline description = unlines
     ['''',
      ''Analyze this financial news and extract information in JSON format:'',
      '''',
      ''Headline: '' @ headline,
      ''Description: '' @ fmt_opt description,
      '''',
      ''Please provide a JSON response with:'',
      ''1. "companies": List of company names mentioned (full company names, not abbreviations)'',
      ''2. "tickers": List of stock ticker symbols for the companies (if publicly traded, use actual tickers like AAPL, GOOGL, etc.)'',
      ''3. "sentiment": Overall sentiment ("positive", "negative", or "neutral")'',
      ''4. "sentiment_score": Numerical score from -1 (very negative) to +1 (very positive)'',
      ''5. "key_themes": List of main themes/topics in the news'',
      ''6. "confidence": Confidence level in the analysis (0-1)'',
      '''',
      ''Guidelines:'',
      ''- Use official company names (e.g., "Apple Inc." not "Apple")'',
      ''- Use correct stock tickers (e.g., "META" for Facebook/Meta, "GOOGL" for Google/Alphabet)'',
      ''- If company is private or not publicly traded, use "PRIVATE" as ticker'',
      ''- Be accurate with sentiment analysis considering business impact'',
      ''- If unsure about a ticker, use "UNKNOWN"'',
      '''',
      ''Return only valid JSON, no additional text.'']\<close>

text \<open>The dictionary returned when there is no response, or none that parses.\<close>

definition zero_analysis :: "(string \<times> json) list" where
  "zero_analysis =
     [(''companies'', JArr []), (''tickers'', JArr []), (''sentiment'', JStr ''neutral''),
      (''sentiment_score'', JFloat (Finite 0)), (''key_themes'', JArr []),
      (''confidence'', JFloat (Finite 0))]"

text \<open>\<^verbatim>\<open>d.get(k, default)\<close>\<close>

definition dict_get :: "(string \<times> json) list \<Rightarrow> string \<Rightarrow> json \<Rightarrow> json" where
  "dict_get d k dflt = (case map_of d k of None \<Rightarrow> dflt | Some v \<Rightarrow> v)"

text \<open>\<^verbatim>\<open>d[k]\<close>\<close>

definition dict_item :: "(string \<times> json) list \<Rightarrow> string \<Rightarrow> pyerr + json" where
  "dict_item d k = (case map_of d k of None \<Rightarrow> Inl KeyError | Some v \<Rightarrow> Inr v)"

text \<open>Lines 152 to 156: the response without surrounding white space and fences.\<close>

definition clean_response :: "string \<Rightarrow> string" where
  "clean_response response =
     (let cleaned = strip response
      in if startswith cleaned ''```json'' then slice_neg cleaned 7 3
         else if startswith cleaned ''```'' then slice_neg cleaned 3 3
         else cleaned)"

text \<open>
  Lines 160 to 168: the six fields are filled in. Only a dictionary has \<^verbatim>\<open>get\<close>; the two
  calls of \<^verbatim>\<open>float\<close> raise on a value that is not a number.
\<close>

definition validate :: "json \<Rightarrow> pyerr + (string \<times> json) list" where
  "validate analysis =
     (case analysis of
        JObj d \<Rightarrow>
          (let d1 = dict_set d ''companies'' (dict_get d ''companies'' (JArr []));
               d2 = dict_set d1 ''tickers'' (dict_get d1 ''tickers'' (JArr []));
               d3 = dict_set d2 ''sentiment'' (dict_get d2 ''sentiment'' (JStr ''neutral''))
           in case py_float (dict_get d3 ''sentiment_score'' (JFloat (Finite 0))) of
                Inl e \<Rightarrow> Inl e
              | Inr score \<Rightarrow>
                  (let d4 = dict_set d3 ''sentiment_score'' (JFloat score);
                       d5 = dict_set d4 ''key_themes'' (dict_get d4 ''key_themes'' (JArr []))
                   in case py_float (dict_get d5 ''confidence'' (JFloat (Finite (1 / 2)))) of
                        Inl e \<Rightarrow> Inl e
                      | Inr conf \<Rightarrow> Inr (dict_set d5 ''confidence'' (JFloat conf))))
      | JNull \<Rightarrow> Inl AttributeError
      | JBool b \<Rightarrow> Inl AttributeError
      | JInt i \<Rightarrow> Inl AttributeError
      | JFloat f \<Rightarrow> Inl AttributeError
      | JStr s \<Rightarrow> Inl AttributeError
      | JArr xs \<Rightarrow> Inl AttributeError)"

text \<open>
  Lines 140 to 180, the response normalizer: \<^verbatim>\<open>except json.JSONDecodeError\<close> catches the
  failure of \<^verbatim>\<open>json.loads\<close> and nothing else.
\<close>

definition parse_response :: "string option \<Rightarrow> pyerr + (string \<times> json) list" where
  "parse_response response =
     (case response of
        None \<Rightarrow> Inr zero_analysis
      | Some r \<Rightarrow>
          if r = [] then Inr zero_analysis
          else
            (case json_loads (clean_response r) of
               Inl e \<Rightarrow> if e = JSONDecodeError then Inr zero_analysis else Inl e
             | Inr analysis \<Rightarrow> validate analysis))"

definition analyze_news_with_llm ::
  "env \<Rightarrow> parser \<Rightarrow> string \<Rightarrow> string option \<Rightarrow> world
     \<Rightarrow> (pyerr + (string \<times> json) list) \<times> world"
where
  "analyze_news_with_llm env p headline description w =
     (case call_llm env p (build_prompt headline description) 3 w of
        (response, w1) \<Rightarrow> (parse_response response, w1))"

subsection \<open>The ticker files\<close>

text \<open>\<^verbatim>\<open>os.path.join(a, b)\<close> on POSIX.\<close>

definition os_path_join :: "string \<Rightarrow> string \<Rightarrow> string" where
  "os_path_join a b =
     (if startswith b ''/'' then b
      else if a = [] \<or> last a = CHR ''/'' then a @ b
      else a @ ''/'' @ b)"

definition ticker_file :: "env \<Rightarrow> parser \<Rightarrow> json \<Rightarrow> string" where
  "ticker_file env p ticker = os_path_join (output_dir p) (py_str env ticker @ ''.json'')"

text \<open>
  \<^verbatim>\<open>load_existing_data\<close>: the decoded content of the file, or the empty list when there is
  no file or reading it raises.
\<close>

definition load_existing_data :: "env \<Rightarrow> parser \<Rightarrow> json \<Rightarrow> world \<Rightarrow> json" where
  "load_existing_data env p ticker w =
     (case files w (ticker_file env p ticker) of
        None \<Rightarrow> JArr []
      | Some Unreadable \<Rightarrow> JArr []
      | Some (JsonText j n a) \<Rightarrow> j)"

text \<open>
  \<^verbatim>\<open>save_ticker_data\<close>: \<^verbatim>\<open>json.dump(data, f, indent=2, ensure_ascii=False)\<close>. The
  directory of the file is taken to exist, so that opening the file for writing succeeds.
\<close>

definition save_ticker_data :: "env \<Rightarrow> parser \<Rightarrow> json \<Rightarrow> json list \<Rightarrow> world \<Rightarrow> world" where
  "save_ticker_data env p ticker entries w =
     w\<lparr>files := (files w)(ticker_file env p ticker \<mapsto> JsonText (JArr entries) (Some 2) False)\<rparr>"

subsection \<open>\<^verbatim>\<open>parse_csv_file\<close>\<close>

text \<open>
  A row of \<^verbatim>\<open>csv.DictReader\<close>: a column of the header maps to the text of its cell, or to
  \<^verbatim>\<open>None\<close> when the line is too short to have the cell.
\<close>

type_synonym row = "string \<Rightarrow> string option option"

text \<open>\<^verbatim>\<open>row.get(k, '')\<close>\<close>

definition row_get :: "row \<Rightarrow> string \<Rightarrow> string option" where
  "row_get r k = (case r k of None \<Rightarrow> Some [] | Some v \<Rightarrow> v)"

definition truthy :: "string option \<Rightarrow> bool" where
  "truthy v = (case v of None \<Rightarrow> False | Some s \<Rightarrow> s \<noteq> [])"

text \<open>\<^verbatim>\<open>a or b\<close>\<close>

definition py_or :: "string option \<Rightarrow> string option \<Rightarrow> string option" where
  "py_or a b = (if truthy a then a else b)"

definition row_headline :: "row \<Rightarrow> string option" where
  "row_headline r = py_or (row_get r ''Headlines'') (row_get r ''Headline'')"

definition row_time :: "row \<Rightarrow> string option" where
  "row_time r = py_or (row_get r ''Time'') (row_get r ''Date'')"

definition row_description :: "row \<Rightarrow> string option" where
  "row_description r = py_or (row_get r ''Description'') (row_get r ''Content'')"

text \<open>\<^verbatim>\<open>x > c\<close> for a float constant \<open>c\<close>.\<close>

definition float_gt :: "pyfloat \<Rightarrow> rat \<Rightarrow> bool" where
  "float_gt f c = (case f of Finite q \<Rightarrow> c < q | PosInf \<Rightarrow> True | NegInf \<Rightarrow> False | NaN \<Rightarrow> False)"


definition py_gt :: "json \<Rightarrow> rat \<Rightarrow> pyerr + bool" where
  "py_gt v c =
     (case v of
        JFloat f \<Rightarrow> Inr (float_gt f c)
      | JInt i \<Rightarrow> Inr (c < of_int i)
      | JBool b \<Rightarrow> Inr (c < (if b then 1 else 0))
      | JNull \<Rightarrow> Inl TypeError
      | JStr s \<Rightarrow> Inl TypeError
      | JArr xs \<Rightarrow> Inl TypeError
      | JObj d \<Rightarrow> Inl TypeError)"

text \<open>The elements a \<^verbatim>\<open>for\<close> loop visits.\<close>

definition py_iter :: "json \<Rightarrow> pyerr + json list" where
  "py_iter v =
     (case v of
        JArr xs \<Rightarrow> Inr xs
      | JStr s \<Rightarrow> Inr (map (\<lambda>c. JStr [c]) s)
      | JObj d \<Rightarrow> Inr (map (\<lambda>kv. JStr (fst kv)) d)
      | JNull \<Rightarrow> Inl TypeError
      | JBool b \<Rightarrow> Inl TypeError
      | JInt i \<Rightarrow> Inl TypeError
      | JFloat f \<Rightarrow> Inl TypeError)"

definition py_len :: "json \<Rightarrow> pyerr + nat" where
  "py_len v =
     (case v of
        JArr xs \<Rightarrow> Inr (length xs)
      | JStr s \<Rightarrow> Inr (length s)
      | JObj d \<Rightarrow> Inr (length d)
      | JNull \<Rightarrow> Inl TypeError
      | JBool b \<Rightarrow> Inl TypeError
      | JInt i \<Rightarrow> Inl TypeError
      | JFloat f \<Rightarrow> Inl TypeError)"

text \<open>\<^verbatim>\<open>v[i]\<close> for an index \<open>i \<ge> 0\<close>; the keys of a decoded dictionary are strings.\<close>

definition py_index :: "json \<Rightarrow> nat \<Rightarrow> pyerr + json" where
  "py_index v i =
     (case v of
        JArr xs \<Rightarrow> if i < length xs then Inr (xs ! i) else Inl IndexError
      | JStr s \<Rightarrow> if i < length s then Inr (JStr [s ! i]) else Inl IndexError
      | JObj d \<Rightarrow> Inl KeyError
      | JNull \<Rightarrow> Inl TypeError
      | JBool b \<Rightarrow> Inl TypeError
      | JInt n \<Rightarrow> Inl TypeError
      | JFloat f \<Rightarrow> Inl TypeError)"

text \<open>Line 235: the company at the ticker's index, or \<^verbatim>\<open>"Unknown"\<close>.\<close>

definition company_at :: "json \<Rightarrow> nat \<Rightarrow> pyerr + json" where
  "company_at companies i =
     (case py_len companies of
        Inl e \<Rightarrow> Inl e
      | Inr n \<Rightarrow> if i < n then py_index companies i else Inr (JStr ''Unknown''))"

text \<open>Lines 235 to 250: the entry for one ticker; \<open>now\<close> is the reading of the clock.\<close>

definition build_entry ::
  "string \<Rightarrow> string option \<Rightarrow> string option \<Rightarrow> (string \<times> json) list \<Rightarrow> nat \<Rightarrow> json
     \<Rightarrow> string \<Rightarrow> pyerr + json"
where
  "build_entry headline time_str description analysis i ticker now =
     (case dict_item analysis ''companies'' of
        Inl e \<Rightarrow> Inl e
      | Inr companies \<Rightarrow>
     (case company_at companies i of
        Inl e \<Rightarrow> Inl e
      | Inr company_name \<Rightarrow>
     (case dict_item analysis ''sentiment'' of
        Inl e \<Rightarrow> Inl e
      | Inr sentiment \<Rightarrow>
     (case dict_item analysis ''sentiment_score'' of
        Inl e \<Rightarrow> Inl e
      | Inr score \<Rightarrow>
     (case dict_item analysis ''key_themes'' of
        Inl e \<Rightarrow> Inl e
      | Inr themes \<Rightarrow>
     (case dict_item analysis ''confidence'' of
        Inl e \<Rightarrow> Inl e
      | Inr conf \<Rightarrow>
          Inr (JObj
            [(''timestamp'', jopt time_str),
             (''headline'', JStr headline),
             (''description'', jopt description),
             (''company_name'', company_name),
             (''ticker'', ticker),
             (''sentiment'', sentiment),
             (''sentiment_score'', score),
             (''key_themes'', themes),
             (''confidence'', conf),
             (''full_text'', JStr (strip (headline @ '' '' @ fmt_opt description))),
             (''processed_date'', JStr now)])))))))"

text \<open>\<^verbatim>\<open>x == s\<close> for \<open>s\<close> a string or \<^verbatim>\<open>None\<close>.\<close>

definition py_eq :: "json \<Rightarrow> string option \<Rightarrow> bool" where
  "py_eq v s = (v = jopt s)"

text \<open>
  Lines 255 to 260: the scan for an entry with the same headline and timestamp. Only a
  dictionary has \<^verbatim>\<open>get\<close>; the scan stops at the first match.
\<close>

fun find_duplicate :: "json list \<Rightarrow> string \<Rightarrow> string option \<Rightarrow> pyerr + bool" where
  "find_duplicate [] headline time_str = Inr False"
| "find_duplicate (JObj d # rest) headline time_str =
     (if py_eq (dict_get d ''headline'' JNull) (Some headline)
         \<and> py_eq (dict_get d ''timestamp'' JNull) time_str
      then Inr True
      else find_duplicate rest headline time_str)"
| "find_duplicate (v # rest) headline time_str = Inl AttributeError"

text \<open>
  Lines 252 to 264, the store's append-if-new: load, scan, and append and save unless a
  duplicate was found. A loaded value that is not a list raises in the loop or at
  \<^verbatim>\<open>append\<close>.
\<close>

definition append_if_new ::
  "env \<Rightarrow> parser \<Rightarrow> json \<Rightarrow> string \<Rightarrow> string option \<Rightarrow> json \<Rightarrow> world \<Rightarrow> pyerr option \<times> world"
where
  "append_if_new env p ticker headline time_str news_entry w =
     (case load_existing_data env p ticker w of
        JArr existing_data \<Rightarrow>
          (case find_duplicate existing_data headline time_str of
             Inl e \<Rightarrow> (Some e, w)
           | Inr duplicate \<Rightarrow>
               if duplicate then (None, w)
               else (None, save_ticker_data env p ticker (existing_data @ [news_entry]) w))
      | JObj d \<Rightarrow> (Some AttributeError, w)
      | JStr s \<Rightarrow> (Some AttributeError, w)
      | JNull \<Rightarrow> (Some TypeError, w)
      | JBool b \<Rightarrow> (Some TypeError, w)
      | JInt i \<Rightarrow> (Some TypeError, w)
      | JFloat f \<Rightarrow> (Some TypeError, w))"

text \<open>Lines 232 to 265: the body of the loop over the tickers.\<close>

definition process_ticker ::
  "env \<Rightarrow> parser \<Rightarrow> string \<Rightarrow> string option \<Rightarrow> string option \<Rightarrow> (string \<times> json) list
     \<Rightarrow> nat \<Rightarrow> json \<Rightarrow> world \<Rightarrow> pyerr option \<times> world"
where
  "process_ticker env p headline time_str description analysis i ticker w =
     (if ticker = JStr ''UNKNOWN'' \<or> ticker = JStr [] then (None, w)
      else
        (case build_entry headline time_str description analysis i ticker (clock env (ticks w)) of
           Inl e \<Rightarrow> (Some e, w)
         | Inr news_entry \<Rightarrow>
             append_if_new env p ticker headline time_str news_entry
               (w\<lparr>ticks := Suc (ticks w)\<rparr>)))"

text \<open>\<^verbatim>\<open>for i, ticker in enumerate(analysis["tickers"])\<close>\<close>

fun fan_out ::
  "env \<Rightarrow> parser \<Rightarrow> string \<Rightarrow> string option \<Rightarrow> string option \<Rightarrow> (string \<times> json) list
     \<Rightarrow> nat \<Rightarrow> json list \<Rightarrow> world \<Rightarrow> pyerr option \<times> world"
where
  "fan_out env p headline time_str description analysis i [] w = (None, w)"
| "fan_out env p headline time_str description analysis i (ticker # rest) w =
     (case process_ticker env p headline time_str description analysis i ticker w of
        (Some e, w1) \<Rightarrow> (Some e, w1)
      | (None, w1) \<Rightarrow> fan_out env p headline time_str description analysis (Suc i) rest w1)"

text \<open>The local variables of \<^verbatim>\<open>parse_csv_file\<close> and the world.\<close>

record run =
  processed_count :: nat
  successful_analyses :: nat
  wstate :: world

text \<open>Lines 267 to 272: the row is counted and the loop pauses.\<close>

definition finish_row :: "run \<Rightarrow> world \<Rightarrow> run" where
  "finish_row st w =
     st\<lparr>processed_count := Suc (processed_count st), wstate := sleep (1 / 2) w\<rparr>"

text \<open>
  Lines 215 to 272: the body of the loop over the rows. \<^verbatim>\<open>headline[:50]\<close> raises when the
  headline is \<^verbatim>\<open>None\<close>.
\<close>

definition process_row :: "env \<Rightarrow> parser \<Rightarrow> row \<Rightarrow> run \<Rightarrow> pyerr option \<times> run" where
  "process_row env p r st =
     (let headline = row_headline r;
          time_str = row_time r;
          description = row_description r
      in if \<not> truthy headline \<and> \<not> truthy description then (None, st)
         else
           (case headline of
              None \<Rightarrow> (Some TypeError, st)
            | Some h \<Rightarrow>
                (case analyze_news_with_llm env p h description (wstate st) of
                   (Inl e, w1) \<Rightarrow> (Some e, st\<lparr>wstate := w1\<rparr>)
                 | (Inr analysis, w1) \<Rightarrow>
                     (case dict_item analysis ''confidence'' of
                        Inl e \<Rightarrow> (Some e, st\<lparr>wstate := w1\<rparr>)
                      | Inr conf \<Rightarrow>
                          (case py_gt conf (3 / 10) of
                             Inl e \<Rightarrow> (Some e, st\<lparr>wstate := w1\<rparr>)
                           | Inr confident \<Rightarrow>
                               if \<not> confident then (None, finish_row st w1)
                               else
                                 (let st1 = st\<lparr>successful_analyses :=
                                                  Suc (successful_analyses st)\<rparr>
                                  in case dict_item analysis ''tickers'' of
                                       Inl e \<Rightarrow> (Some e, st1\<lparr>wstate := w1\<rparr>)
                                     | Inr tickers \<Rightarrow>
                                         (case py_iter tickers of
                                            Inl e \<Rightarrow> (Some e, st1\<lparr>wstate := w1\<rparr>)
                                          | Inr ts \<Rightarrow>
                                              (case fan_out env p h time_str description
                                                      analysis 0 ts w1 of
                                                 (Some e, w2) \<Rightarrow> (Some e, st1\<lparr>wstate := w2\<rparr>)
                                               | (None, w2) \<Rightarrow> (None, finish_row st1 w2)))))))))"

fun process_rows :: "env \<Rightarrow> parser \<Rightarrow> row list \<Rightarrow> run \<Rightarrow> pyerr option \<times> run" where
  "process_rows env p [] st = (None, st)"
| "process_rows env p (r # rs) st =
     (case process_row env p r st of
        (Some e, st1) \<Rightarrow> (Some e, st1)
      | (None, st1) \<Rightarrow> process_rows env p rs st1)"

text \<open>
  \<^verbatim>\<open>parse_csv_file\<close> on the rows the reader yields. An exception ends the run; what was
  written before it stays written.
\<close>

definition parse_csv_file :: "env \<Rightarrow> parser \<Rightarrow> row list \<Rightarrow> world \<Rightarrow> pyerr option \<times> run" where
  "parse_csv_file env p rows w =
     process_rows env p rows \<lparr>processed_count = 0, successful_analyses = 0, wstate = w\<rparr>"

section \<open>Example inputs\<close>

definition empty_world :: world where
  "empty_world = \<lparr>files = Map.empty, trace = [], ticks = 0\<rparr>"

text \<open>A response wrapped in one layer of fences with a language hint.\<close>

definition fenced_example :: string where
  \<open>fenced_example = ''```json\<newline>{"sentiment":"positive","sentiment_score":0.5,"confidence":0.9,"companies":["Apple Inc."],"tickers":["AAPL"],"key_themes":["earnings"]}\<newline>```''\<close>

text \<open>The identifiers for which \<^verbatim>\<open>setup_llm_config\<close> has a branch.\<close>

definition known_providers :: "string list" where
  "known_providers = [''openai'', ''anthropic'', ''ollama'', ''huggingface'']"

text \<open>A backend whose every request fails.\<close>

definition failing_env :: env where
  "failing_env =
     \<lparr>provider = (\<lambda>n req. Inl ValueError), clock = (\<lambda>n. ''2024-01-01T00:00:00''),
      str_of = (\<lambda>v. ''?'')\<rparr>"

definition openai_parser :: parser where
  "openai_parser =
     \<lparr>api_key = None, model_provider = ''openai'', output_dir = ''company_news'',
      api_url = Some ''https://api.openai.com/v1/chat/completions'',
      model_name = Some ''gpt-3.5-turbo'',
      headers = Some [(''Authorization'', JStr ''Bearer None''),
                      (''Content-Type'', JStr ''application/json'')]\<rparr>"

text \<open>The object built for an identifier without a branch.\<close>

definition gemini_parser :: parser where
  "gemini_parser =
     \<lparr>api_key = None, model_provider = ''gemini'', output_dir = ''company_news'',
      api_url = None, model_name = None, headers = None\<rparr>"

text \<open>A backend that answers every request with a score that is not a number.\<close>

definition bad_score_env :: env where
  \<open>bad_score_env =
     \<lparr>provider = (\<lambda>n req. Inr ''{"sentiment_score": "high", "confidence": 0.9, "tickers": ["AAPL"]}''),
      clock = (\<lambda>n. ''2024-01-01T00:00:00''), str_of = (\<lambda>v. ''?'')\<rparr>\<close>


definition row_a :: row where
  "row_a = [''Headlines'' \<mapsto> Some ''Apple beats estimates'', ''Time'' \<mapsto> Some ''2024-01-01'',
            ''Description'' \<mapsto> Some ''Strong quarter'']"

definition row_b :: row where
  "row_b = [''Headlines'' \<mapsto> Some ''Rates unchanged'', ''Time'' \<mapsto> Some ''2024-01-02'',
            ''Description'' \<mapsto> Some ''No surprise'']"


section \<open>Properties of the stored collections\<close>

text \<open>\<^verbatim>\<open>e.get(k)\<close> for a stored entry.\<close>

definition entry_field :: "json \<Rightarrow> string \<Rightarrow> json" where
  "entry_field e k = (case e of JObj d \<Rightarrow> dict_get d k JNull | _ \<Rightarrow> JNull)"

definition is_obj :: "json \<Rightarrow> bool" where
  "is_obj e = (case e of JObj d \<Rightarrow> True | _ \<Rightarrow> False)"

text \<open>The pair that the duplicate scan compares.\<close>

definition dedup_key :: "json \<Rightarrow> json \<times> json" where
  "dedup_key e = (entry_field e ''headline'', entry_field e ''timestamp'')"

text \<open>A collection of dictionaries, no two with the same headline and timestamp.\<close>

definition collection_ok :: "json list \<Rightarrow> bool" where
  "collection_ok xs = (list_all is_obj xs \<and> distinct (map dedup_key xs))"

text \<open>The entries held by the file of a given name; none when the file holds no list.\<close>

definition stored :: "world \<Rightarrow> string \<Rightarrow> json list" where
  "stored w name =
     (case files w name of
        None \<Rightarrow> []
      | Some Unreadable \<Rightarrow> []
      | Some (JsonText j n a) \<Rightarrow> (case j of JArr xs \<Rightarrow> xs | _ \<Rightarrow> []))"

text \<open>Every file that can be read holds such a collection.\<close>

definition store_ok :: "world \<Rightarrow> bool" where
  "store_ok w =
     (\<forall>name. case files w name of
        None \<Rightarrow> True
      | Some Unreadable \<Rightarrow> True
      | Some (JsonText j n a) \<Rightarrow> (case j of JArr xs \<Rightarrow> collection_ok xs | _ \<Rightarrow> False))"



text \<open>A backend that finds Apple in every headline.\<close>

definition apple_env :: env where
  \<open>apple_env =
     \<lparr>provider = (\<lambda>n req. Inr ''{"confidence": 0.9, "tickers": ["AAPL"], "companies": ["Apple Inc."], "sentiment": "positive"}''),
      clock = (\<lambda>n. ''2024-01-01T00:00:00''), str_of = (\<lambda>v. ''?'')\<rparr>\<close>

text \<open>The analysis of the answer of \<open>apple_env\<close>, the entry it gives, and the store after it.\<close>

definition apple_analysis :: "(string \<times> json) list" where
  "apple_analysis =
     [(''confidence'', JFloat (Finite (9 / 10))), (''tickers'', JArr [JStr ''AAPL'']),
      (''companies'', JArr [JStr ''Apple Inc.'']), (''sentiment'', JStr ''positive''),
      (''sentiment_score'', JFloat (Finite 0)), (''key_themes'', JArr [])]"

definition apple_entry :: json where
  "apple_entry =
     JObj [(''timestamp'', JStr ''2024-01-01''),
           (''headline'', JStr ''Apple beats estimates''),
           (''description'', JStr ''Strong quarter''),
           (''company_name'', JStr ''Apple Inc.''),
           (''ticker'', JStr ''AAPL''),
           (''sentiment'', JStr ''positive''),
           (''sentiment_score'', JFloat (Finite 0)),
           (''key_themes'', JArr []),
           (''confidence'', JFloat (Finite (9 / 10))),
           (''full_text'', JStr ''Apple beats estimates Strong quarter''),
           (''processed_date'', JStr ''2024-01-01T00:00:00'')]"

definition apple_stored :: world where
  "apple_stored =
     \<lparr>files = [''company_news/AAPL.json'' \<mapsto> JsonText (JArr [apple_entry]) (Some 2) False],
      trace = [], ticks = 1\<rparr>"

section \<open>Properties\<close>

subsection \<open>Dictionaries\<close>




subsection \<open>The response normalizer\<close>





text \<open>
  C7. The response made of a fence with the hint \<^verbatim>\<open>json\<close>, a line feed, the six-field
  object of the specification, a line feed and a closing fence: both fences are cut, the
  payload between them decodes, and the analysis has sentiment \<^verbatim>\<open>positive\<close> and the
  tickers \<^verbatim>\<open>["AAPL"]\<close>.
\<close>

theorem fenced_response_parses:
  \<open>clean_response fenced_example =
     ''\<newline>{"sentiment":"positive","sentiment_score":0.5,"confidence":0.9,"companies":["Apple Inc."],"tickers":["AAPL"],"key_themes":["earnings"]}\<newline>''
   \<and> parse_response (Some fenced_example) =
     Inr [(''sentiment'', JStr ''positive''),
          (''sentiment_score'', JFloat (Finite (1 / 2))),
          (''confidence'', JFloat (Finite (9 / 10))),
          (''companies'', JArr [JStr ''Apple Inc.'']),
          (''tickers'', JArr [JStr ''AAPL'']),
          (''key_themes'', JArr [JStr ''earnings''])]\<close>
  by code_simp

subsection \<open>Fences\<close>

lemma strip_noop:
  assumes "s \<noteq> []" "\<not> py_isspace (hd s)" "\<not> py_isspace (last s)"
  shows "strip s = s"
proof -
  have "dropWhile py_isspace s = s"
    using assms by (simp add: dropWhile_eq_self_iff)
  moreover have "dropWhile py_isspace (rev s) = rev s"
    using assms by (simp add: dropWhile_eq_self_iff hd_rev)
  ultimately show ?thesis by (simp add: strip_def)
qed

lemma backtick_not_space: "\<not> py_isspace (CHR 0x60)"
  by (simp add: py_isspace_def code_point_def)

lemma clean_response_fenced:
  assumes "startswith (strip r) ''```''"
  shows "clean_response r =
            drop (if startswith (strip r) ''```json'' then 7 else 3)
              (take (length (strip r) - 3) (strip r))"
  using assms by (simp add: clean_response_def Let_def slice_neg_def)

lemma drop_take_prefix:
  assumes "3 \<le> length body" "length pre = k"
  shows "drop k (take (length (pre @ body) - 3) (pre @ body)) = take (length body - 3) body"
  using assms by auto

text \<open>
  C10. When the stripped response begins with a fence, the text handed to
  \<^verbatim>\<open>json.loads\<close> is the stripped response without its first seven (with the hint
  \<^verbatim>\<open>json\<close>) or three characters and without its last three characters, whatever they
  are. So a response that opens with a fence and has no closing fence loses the last
  three characters of its payload.
\<close>

theorem unconditional_fence_cut:
  "(startswith (strip r) ''```''
      \<longrightarrow> clean_response r =
            drop (if startswith (strip r) ''```json'' then 7 else 3)
              (take (length (strip r) - 3) (strip r)))
   \<and> (3 \<le> length body \<and> \<not> py_isspace (last body)
      \<longrightarrow> clean_response (''```json'' @ body) = take (length body - 3) body)
   \<and> (3 \<le> length body \<and> \<not> py_isspace (last body) \<and> \<not> startswith body ''json''
      \<longrightarrow> clean_response (''```'' @ body) = take (length body - 3) body)"
proof (intro conjI impI)
  assume "startswith (strip r) ''```''"
  then show "clean_response r =
            drop (if startswith (strip r) ''```json'' then 7 else 3)
              (take (length (strip r) - 3) (strip r))"
    by (rule clean_response_fenced)
next
  assume a: "3 \<le> length body \<and> \<not> py_isspace (last body)"
  then have ne: "body \<noteq> []" by auto
  define c where "c = ''```json'' @ body"
  have s: "strip c = c"
    unfolding c_def using a ne by (intro strip_noop) (simp_all add: backtick_not_space)
  have f: "startswith c ''```''" "startswith c ''```json''"
    by (simp_all add: c_def startswith_def)
  have "clean_response c = drop 7 (take (length c - 3) c)"
    using clean_response_fenced [of c] f by (simp add: s)
  also have "\<dots> = take (length body - 3) body"
    unfolding c_def by (rule drop_take_prefix) (use a in simp_all)
  finally show "clean_response (''```json'' @ body) = take (length body - 3) body"
    by (simp add: c_def)
next
  assume a: "3 \<le> length body \<and> \<not> py_isspace (last body) \<and> \<not> startswith body ''json''"
  then have ne: "body \<noteq> []" by auto
  define c where "c = ''```'' @ body"
  have s: "strip c = c"
    unfolding c_def using a ne by (intro strip_noop) (simp_all add: backtick_not_space)
  have f: "startswith c ''```''" "\<not> startswith c ''```json''"
    using a by (simp_all add: c_def startswith_def)
  have "clean_response c = drop 3 (take (length c - 3) c)"
    using clean_response_fenced [of c] f by (simp add: s)
  also have "\<dots> = take (length body - 3) body"
    unfolding c_def by (rule drop_take_prefix) (use a in simp_all)
  finally show "clean_response (''```'' @ body) = take (length body - 3) body"
    by (simp add: c_def)
qed

theorem unconditional_fence_cut_witness:
  \<open>3 \<le> length ''\<newline>{"confidence": 0.9}''
   \<and> \<not> py_isspace (last ''\<newline>{"confidence": 0.9}'')
   \<and> startswith (strip ''```json\<newline>{"confidence": 0.9}'') ''```''
   \<and> clean_response (''```json'' @ ''\<newline>{"confidence": 0.9}'') = ''\<newline>{"confidence": 0''
   \<and> parse_response (Some (''```json'' @ ''\<newline>{"confidence": 0.9}'')) = Inr zero_analysis\<close>
proof -
  have h: \<open>3 \<le> length ''\<newline>{"confidence": 0.9}''
      \<and> \<not> py_isspace (last ''\<newline>{"confidence": 0.9}'')\<close>
    by code_simp
  have s: \<open>startswith (strip ''```json\<newline>{"confidence": 0.9}'') ''```''\<close>
    by code_simp
  have p: \<open>parse_response (Some (''```json'' @ ''\<newline>{"confidence": 0.9}'')) = Inr zero_analysis\<close>
    by code_simp
  have c: \<open>clean_response (''```json'' @ ''\<newline>{"confidence": 0.9}'')
       = take (length ''\<newline>{"confidence": 0.9}'' - 3) ''\<newline>{"confidence": 0.9}''\<close>
    using h unconditional_fence_cut [of _ \<open>''\<newline>{"confidence": 0.9}''\<close>] by blast
  show ?thesis
    using h s p c by simp
qed

subsection \<open>Retries\<close>





subsection \<open>Construction\<close>

lemma try_request_unconfigured:
  assumes "model_provider p \<notin> set known_providers" "api_url p = None"
  shows "try_request env p prompt w = (Inl AttributeError, w)"
  using assms by (simp add: try_request_def build_payload_def known_providers_def)

lemma call_llm_loop_unconfigured:
  assumes "model_provider p \<notin> set known_providers" "api_url p = None"
  shows "call_llm_loop env p prompt m [k..<nat m] w =
           (None, w\<lparr>trace := trace w @ map (\<lambda>i. Sleep (2 ^ i)) [k..<nat m - 1]\<rparr>)"
proof (induction "nat m - k" arbitrary: k w)
  case 0
  then show ?case by simp
next
  case (Suc d)
  then have lt: "k < nat m" by simp
  have up: "[k..<nat m] = k # [Suc k..<nat m]"
    using lt by (simp add: upt_conv_Cons)
  show ?case
  proof (cases "Suc k < nat m")
    case True
    then have c: "int k < m - 1" by auto
    have d: "d = nat m - Suc k" using Suc.hyps by simp
    have up2: "[k..<nat m - Suc 0] = k # [Suc k..<nat m - Suc 0]"
      using True by (simp add: upt_conv_Cons)
    show ?thesis
      using Suc.hyps(1) [OF d] c
      by (simp add: up try_request_unconfigured [OF assms] sleep_def up2)
  next
    case False
    then have eq: "nat m = Suc k" using lt by simp
    then have "\<not> int k < m - 1" by auto
    then show ?thesis
      by (simp add: up try_request_unconfigured [OF assms] eq)
  qed
qed

text \<open>
  C6, as the code has it. Construction with an identifier that has no branch in
  \<^verbatim>\<open>setup_llm_config\<close> does not fail: it returns an object without endpoint, model and
  headers. The failure shows at call time only: every attempt of \<^verbatim>\<open>call_llm\<close> raises
  before a request is sent, the exception is caught, and after the usual pauses
  \<^verbatim>\<open>call_llm\<close> returns \<^verbatim>\<open>None\<close>.
\<close>

theorem unknown_provider_constructs:
  assumes "lower name \<notin> set known_providers" and "files w ''company_news'' = None"
  shows "init key name w =
           Inr \<lparr>api_key = key, model_provider = lower name, output_dir = ''company_news'',
                api_url = None, model_name = None, headers = None\<rparr>
         \<and> (\<forall>p env prompt m w'. init key name w = Inr p \<longrightarrow>
               call_llm env p prompt m w' =
                 (None, w'\<lparr>trace := trace w' @ map (\<lambda>i. Sleep (2 ^ i)) [0..<nat m - 1]\<rparr>))"
proof -
  let ?p = "\<lparr>api_key = key, model_provider = lower name, output_dir = ''company_news'',
                api_url = None, model_name = None, headers = None\<rparr>"
  have i: "init key name w = Inr ?p"
    using assms by (simp add: init_def setup_llm_config_def known_providers_def)
  have "call_llm env ?p prompt m w' =
          (None, w'\<lparr>trace := trace w' @ map (\<lambda>i. Sleep (2 ^ i)) [0..<nat m - 1]\<rparr>)"
    for env prompt m w'
    unfolding call_llm_def using assms(1) by (intro call_llm_loop_unconfigured) simp_all
  then show ?thesis using i by simp
qed

theorem unknown_provider_constructs_witness:
  "lower ''Gemini'' \<notin> set known_providers
   \<and> files empty_world ''company_news'' = None
   \<and> init None ''Gemini'' empty_world = Inr gemini_parser
   \<and> call_llm failing_env gemini_parser ''prompt'' 3 empty_world =
       (None, empty_world\<lparr>trace := [Sleep 1, Sleep 2]\<rparr>)"
proof -
  have a: "lower ''Gemini'' \<notin> set known_providers"
    by code_simp
  have b: "files empty_world ''company_news'' = None"
    by (simp add: empty_world_def)
  have c: "lower ''Gemini'' = ''gemini''"
    by code_simp
  have d: "map (\<lambda>i. Sleep (2 ^ i)) [0..<2] = [Sleep 1, Sleep 2]"
    by code_simp
  have e: "trace empty_world = []"
    by (simp add: empty_world_def)
  from unknown_provider_constructs [OF a b, of None]
  show ?thesis
    using a b by (simp add: c d e gemini_parser_def)
qed

text \<open>
  C6 as stated fails: the constructor returns an object for the identifier
  \<^verbatim>\<open>gemini\<close>.
\<close>

theorem unknown_provider_counterexample:
  "init None ''gemini'' empty_world = Inr gemini_parser"
  by code_simp

subsection \<open>File names\<close>





subsection \<open>A score that is not a number\<close>

text \<open>
  C4 fails on the code. A response whose score is the text \<^verbatim>\<open>high\<close> makes \<^verbatim>\<open>float\<close>
  raise \<^verbatim>\<open>ValueError\<close>, which the handler for \<^verbatim>\<open>JSONDecodeError\<close> does not catch: the
  exception leaves \<^verbatim>\<open>analyze_news_with_llm\<close> and ends the run at the first row, before
  the row is counted and before the second row is read.
\<close>

theorem non_numeric_score_aborts_run:
  \<open>parse_response (Some ''{"sentiment_score": "high"}'') = Inl ValueError
   \<and> fst (parse_csv_file bad_score_env openai_parser [row_a, row_b] empty_world) = Some ValueError
   \<and> processed_count (snd (parse_csv_file bad_score_env openai_parser [row_a, row_b] empty_world)) = 0
   \<and> trace (wstate (snd (parse_csv_file bad_score_env openai_parser [row_a, row_b] empty_world)))
       = [Request]\<close>
  by code_simp

subsection \<open>What the analysis leaves alone\<close>

lemma try_request_frame:
  "files (snd (try_request env p prompt w)) = files w
   \<and> ticks (snd (try_request env p prompt w)) = ticks w"
  by (simp add: try_request_def split: sum.splits option.splits)

lemma call_llm_loop_frame:
  "files (snd (call_llm_loop env p prompt m atts w)) = files w
   \<and> ticks (snd (call_llm_loop env p prompt m atts w)) = ticks w"
proof (induction atts arbitrary: w)
  case Nil
  then show ?case by simp
next
  case (Cons i rest)
  obtain r w1 where t: "try_request env p prompt w = (r, w1)"
    using prod.exhaust by blast
  have f: "files w1 = files w \<and> ticks w1 = ticks w"
    using try_request_frame [of env p prompt w] t by simp
  show ?case
  proof (cases r)
    case (Inl e)
    then show ?thesis
      using Cons.IH [of "sleep (2 ^ i) w1"] f t by (simp add: sleep_def)
  next
    case (Inr reply)
    then show ?thesis using f t by simp
  qed
qed

lemma analyze_frame:
  assumes "analyze_news_with_llm env p h d w = (r, w1)"
  shows "files w1 = files w \<and> ticks w1 = ticks w"
proof -
  obtain resp w' where c: "call_llm env p (build_prompt h d) 3 w = (resp, w')"
    using prod.exhaust by blast
  then have "w1 = w'"
    using assms by (simp add: analyze_news_with_llm_def)
  moreover have "files w' = files w \<and> ticks w' = ticks w"
    using call_llm_loop_frame [of env p "build_prompt h d" 3 "[0..<nat 3]" w] c
    by (simp add: call_llm_def)
  ultimately show ?thesis by simp
qed


subsection \<open>The confidence gate\<close>




subsection \<open>The ticker store\<close>

lemma find_duplicate_objs:
  "list_all is_obj xs \<Longrightarrow>
   find_duplicate xs h ts = Inr ((JStr h, jopt ts) \<in> set (map dedup_key xs))"
proof (induction xs)
  case Nil
  then show ?case by simp
next
  case (Cons x xs)
  then obtain d where x: "x = JObj d"
    by (cases x) (simp_all add: is_obj_def)
  show ?case
    using Cons by (auto simp: x dedup_key_def entry_field_def py_eq_def jopt_def)
qed

lemma build_entry_fields:
  assumes "build_entry h ts d a i t now = Inr e"
  shows "is_obj e \<and> dedup_key e = (JStr h, jopt ts)
         \<and> entry_field e ''ticker'' = t
         \<and> entry_field e ''headline'' = JStr h
         \<and> entry_field e ''timestamp'' = jopt ts
         \<and> entry_field e ''description'' = jopt d
         \<and> entry_field e ''full_text'' = JStr (strip (h @ '' '' @ fmt_opt d))"
  using assms
  by (auto simp: build_entry_def is_obj_def dedup_key_def entry_field_def dict_get_def
      split: sum.splits)

lemma load_stored:
  assumes "store_ok w"
  shows "load_existing_data env p t w = JArr (stored w (ticker_file env p t))
         \<and> collection_ok (stored w (ticker_file env p t))"
proof -
  have "case files w (ticker_file env p t) of
        None \<Rightarrow> True
      | Some Unreadable \<Rightarrow> True
      | Some (JsonText j n a) \<Rightarrow> (case j of JArr xs \<Rightarrow> collection_ok xs | _ \<Rightarrow> False)"
    using assms unfolding store_ok_def by blast
  then show ?thesis
    by (auto simp: load_existing_data_def stored_def collection_ok_def
        split: option.splits filedata.splits json.splits)
qed

lemma count_distinct_key:
  "distinct (map f xs) \<Longrightarrow> k \<in> set (map f xs) \<Longrightarrow> length (filter (\<lambda>x. f x = k) xs) = 1"
proof (induction xs)
  case Nil
  then show ?case by simp
next
  case (Cons x xs)
  show ?case
  proof (cases "f x = k")
    case True
    then have "k \<notin> set (map f xs)" using Cons.prems by auto
    then have "filter (\<lambda>x. f x = k) xs = []"
      by (auto simp: filter_empty_conv)
    then show ?thesis using True by simp
  next
    case False
    then show ?thesis using Cons by auto
  qed
qed

lemma store_ok_save:
  assumes "store_ok w" "collection_ok xs"
  shows "store_ok (save_ticker_data env p t xs w)"
  using assms unfolding store_ok_def save_ticker_data_def by simp

lemma stored_save:
  "stored (save_ticker_data env p t xs w) name =
     (if name = ticker_file env p t then xs else stored w name)"
  by (simp add: stored_def save_ticker_data_def)

text \<open>What one call of the append does to a well-formed store.\<close>

lemma append_if_new_store:
  assumes ok: "store_ok w" and e: "is_obj e" "dedup_key e = (JStr h, jopt ts)"
  shows "\<exists>w'. append_if_new env p t h ts e w = (None, w')
           \<and> store_ok w'
           \<and> length (filter (\<lambda>x. dedup_key x = (JStr h, jopt ts))
                (stored w' (ticker_file env p t))) = 1
           \<and> ((JStr h, jopt ts) \<in> set (map dedup_key (stored w (ticker_file env p t)))
                \<longrightarrow> w' = w)
           \<and> (w' = w \<or> w' = save_ticker_data env p t (stored w (ticker_file env p t) @ [e]) w)"
proof -
  let ?xs = "stored w (ticker_file env p t)"
  let ?k = "(JStr h, jopt ts)"
  have l: "load_existing_data env p t w = JArr ?xs" and c: "collection_ok ?xs"
    using load_stored [OF ok] by simp_all
  have f: "find_duplicate ?xs h ts = Inr (?k \<in> set (map dedup_key ?xs))"
    using c by (intro find_duplicate_objs) (simp add: collection_ok_def)
  show ?thesis
  proof (cases "?k \<in> set (map dedup_key ?xs)")
    case True
    then have a: "append_if_new env p t h ts e w = (None, w)"
      by (simp add: append_if_new_def l f)
    have "length (filter (\<lambda>x. dedup_key x = ?k) ?xs) = 1"
      using c True by (intro count_distinct_key) (simp_all add: collection_ok_def)
    then show ?thesis using a ok by simp
  next
    case False
    let ?w = "save_ticker_data env p t (?xs @ [e]) w"
    have a: "append_if_new env p t h ts e w = (None, ?w)"
      using False by (simp add: append_if_new_def l f)
    have c': "collection_ok (?xs @ [e])"
      using c e False by (simp add: collection_ok_def)
    have n: "filter (\<lambda>x. dedup_key x = ?k) ?xs = []"
      using False by (force simp: filter_empty_conv image_iff)
    have "length (filter (\<lambda>x. dedup_key x = ?k) (stored ?w (ticker_file env p t))) = 1"
      using e(2) by (simp add: stored_save n)
    then show ?thesis
      using a False store_ok_save [OF ok c'] by simp
  qed
qed

lemma process_ticker_store:
  assumes ok: "store_ok w"
      and run: "process_ticker env p h ts d a i t w = (r, w')"
  shows "store_ok w'
         \<and> (r = None \<and> t \<noteq> JStr ''UNKNOWN'' \<and> t \<noteq> JStr [] \<longrightarrow>
              length (filter (\<lambda>x. dedup_key x = (JStr h, jopt ts))
                (stored w' (ticker_file env p t))) = 1)
         \<and> ((JStr h, jopt ts) \<in> set (map dedup_key (stored w (ticker_file env p t)))
              \<longrightarrow> files w' = files w)"
proof (cases "t = JStr ''UNKNOWN'' \<or> t = JStr []")
  case True
  then show ?thesis using run ok by (auto simp: process_ticker_def)
next
  case False
  show ?thesis
  proof (cases "build_entry h ts d a i t (clock env (ticks w))")
    case (Inl err)
    then show ?thesis using run ok False by (auto simp: process_ticker_def)
  next
    case (Inr e)
    let ?w1 = "w\<lparr>ticks := Suc (ticks w)\<rparr>"
    have ok1: "store_ok ?w1" using ok by (simp add: store_ok_def)
    have s1: "stored ?w1 = stored w" by (simp add: stored_def fun_eq_iff)
    have ef: "is_obj e" "dedup_key e = (JStr h, jopt ts)"
      using build_entry_fields [OF Inr] by simp_all
    from append_if_new_store [OF ok1 ef, of env p t]
    obtain w2 where a: "append_if_new env p t h ts e ?w1 = (None, w2)"
      and o2: "store_ok w2"
      and c2: "length (filter (\<lambda>x. dedup_key x = (JStr h, jopt ts))
                (stored w2 (ticker_file env p t))) = 1"
      and d2: "(JStr h, jopt ts) \<in> set (map dedup_key (stored ?w1 (ticker_file env p t)))
                \<longrightarrow> w2 = ?w1"
      by blast
    have "r = None \<and> w' = w2"
      using run False Inr a by (simp add: process_ticker_def)
    then show ?thesis
      using o2 c2 d2 by (auto simp: s1)
  qed
qed


subsection \<open>Lifting a property of the files to a run\<close>

lemma fan_out_preserves:
  assumes step: "\<And>i t w r w'. I w \<Longrightarrow> process_ticker env p h ts d a i t w = (r, w') \<Longrightarrow> I w'"
  shows "I w \<Longrightarrow> fan_out env p h ts d a i tks w = (r, w') \<Longrightarrow> I w'"
proof (induction tks arbitrary: i w)
  case Nil
  then show ?case by simp
next
  case (Cons t tks)
  obtain r1 w1 where s: "process_ticker env p h ts d a i t w = (r1, w1)"
    using prod.exhaust by blast
  have i1: "I w1" using step [OF Cons.prems(1) s] .
  show ?case
  proof (cases r1)
    case None
    then show ?thesis using Cons.IH [OF i1] Cons.prems(2) s by simp
  next
    case (Some err)
    then show ?thesis using i1 Cons.prems(2) s by simp
  qed
qed

text \<open>Where the world of a row's end comes from.\<close>

lemma process_row_cases:
  assumes run: "process_row env p r st = (res, st')"
  obtains (same) "wstate st' = wstate st"
    | (analysed) h ra w1 where "row_headline r = Some h"
        "analyze_news_with_llm env p h (row_description r) (wstate st) = (ra, w1)"
        "files (wstate st') = files w1"
    | (fanned) h ra w1 a tks rf w2 where "row_headline r = Some h"
        "analyze_news_with_llm env p h (row_description r) (wstate st) = (ra, w1)"
        "fan_out env p h (row_time r) (row_description r) a 0 tks w1 = (rf, w2)"
        "files (wstate st') = files w2"
proof (cases "\<not> truthy (row_headline r) \<and> \<not> truthy (row_description r)")
  case True
  then have "st' = st" using run by (simp add: process_row_def Let_def)
  then show ?thesis using same by simp
next
  case nskip: False
  show ?thesis
  proof (cases "row_headline r")
    case None
    then have "st' = st" using run nskip by (simp add: process_row_def Let_def split: if_splits)
    then show ?thesis using same by simp
  next
    case (Some h)
    obtain ra w1 where an: "analyze_news_with_llm env p h (row_description r) (wstate st) = (ra, w1)"
      using prod.exhaust by blast
    note base = nskip Some an
    show ?thesis
    proof (cases ra)
      case (Inl e)
      then have "files (wstate st') = files w1"
        using run base by (auto simp: process_row_def Let_def)
      then show ?thesis using analysed [OF Some an] by simp
    next
      case ra: (Inr a)
      show ?thesis
      proof (cases "dict_item a ''confidence''")
        case (Inl e)
        then have "files (wstate st') = files w1"
          using run base ra by (auto simp: process_row_def Let_def)
        then show ?thesis using analysed [OF Some an] by simp
      next
        case c: (Inr conf)
        show ?thesis
        proof (cases "py_gt conf (3 / 10)")
          case (Inl e)
          then have "files (wstate st') = files w1"
            using run base ra c by (auto simp: process_row_def Let_def)
          then show ?thesis using analysed [OF Some an] by simp
        next
          case g: (Inr confident)
          show ?thesis
          proof (cases confident)
            case False
            then have "files (wstate st') = files w1"
              using run base ra c g
              by (auto simp: process_row_def Let_def finish_row_def sleep_def)
            then show ?thesis using analysed [OF Some an] by simp
          next
            case True
            note gate = ra c g True
            show ?thesis
            proof (cases "dict_item a ''tickers''")
              case (Inl e)
              then have "files (wstate st') = files w1"
                using run base gate by (auto simp: process_row_def Let_def)
              then show ?thesis using analysed [OF Some an] by simp
            next
              case t: (Inr tickers)
              show ?thesis
              proof (cases "py_iter tickers")
                case (Inl e)
                then have "files (wstate st') = files w1"
                  using run base gate t by (auto simp: process_row_def Let_def)
                then show ?thesis using analysed [OF Some an] by simp
              next
                case it: (Inr tks)
                obtain rf w2 where
                  f: "fan_out env p h (row_time r) (row_description r) a 0 tks w1 = (rf, w2)"
                  using prod.exhaust by blast
                have "files (wstate st') = files w2"
                  using run base gate t it f
                  by (cases rf) (auto simp: process_row_def Let_def finish_row_def sleep_def)
                then show ?thesis using fanned [OF Some an f] by simp
              qed
            qed
          qed
        qed
      qed
    qed
  qed
qed

lemma process_row_preserves:
  assumes step: "\<And>h a i t w r' w'. row_headline r = Some h \<Longrightarrow> I w \<Longrightarrow>
            process_ticker env p h (row_time r) (row_description r) a i t w = (r', w') \<Longrightarrow> I w'"
      and frame: "\<And>w w'. files w' = files w \<Longrightarrow> I w \<Longrightarrow> I w'"
      and start: "I (wstate st)"
      and run: "process_row env p r st = (res, st')"
  shows "I (wstate st')"
  using run
proof (cases rule: process_row_cases)
  case same
  then show ?thesis using start by simp
next
  case (analysed h ra w1)
  have "I w1" using frame analyze_frame [OF analysed(2)] start by blast
  then show ?thesis using frame analysed(3) by blast
next
  case (fanned h ra w1 a tks rf w2)
  have i1: "I w1" using frame analyze_frame [OF fanned(2)] start by blast
  have "I w2"
  proof (rule fan_out_preserves [of I env p h "row_time r" "row_description r" a, OF _ i1 fanned(3)])
    fix i t w r' w'
    assume "I w" "process_ticker env p h (row_time r) (row_description r) a i t w = (r', w')"
    then show "I w'" using step [OF fanned(1)] by blast
  qed
  then show ?thesis using frame fanned(4) by blast
qed

lemma process_rows_preserves:
  assumes step: "\<And>r h a i t w r' w'. r \<in> set rows \<Longrightarrow> row_headline r = Some h \<Longrightarrow> I w \<Longrightarrow>
            process_ticker env p h (row_time r) (row_description r) a i t w = (r', w') \<Longrightarrow> I w'"
      and frame: "\<And>w w'. files w' = files w \<Longrightarrow> I w \<Longrightarrow> I w'"
  shows "I (wstate st) \<Longrightarrow> process_rows env p rows st = (res, st') \<Longrightarrow> I (wstate st')"
  using step
proof (induction rows arbitrary: st)
  case Nil
  then show ?case by simp
next
  case (Cons r rows)
  obtain r1 st1 where s: "process_row env p r st = (r1, st1)"
    using prod.exhaust by blast
  have i1: "I (wstate st1)"
  proof (rule process_row_preserves [of r I env p st r1 st1])
    fix h a i t w r' w'
    assume "row_headline r = Some h" "I w"
      "process_ticker env p h (row_time r) (row_description r) a i t w = (r', w')"
    then show "I w'" using Cons.prems(3) [of r h w a i t r' w'] by simp
  next
    fix w w' :: world
    assume "files w' = files w" "I w"
    then show "I w'" using frame by blast
  next
    show "I (wstate st)" using Cons.prems(1) .
  next
    show "process_row env p r st = (r1, st1)" using s .
  qed
  show ?case
  proof (cases r1)
    case None
    have "I (wstate st')"
    proof (rule Cons.IH [OF i1])
      show "process_rows env p rows st1 = (res, st')"
        using Cons.prems(2) s None by simp
    next
      fix r h a i t w r' w'
      assume "r \<in> set rows" "row_headline r = Some h" "I w"
        "process_ticker env p h (row_time r) (row_description r) a i t w = (r', w')"
      then show "I w'" using Cons.prems(3) [of r h w a i t r' w'] by simp
    qed
    then show ?thesis .
  next
    case (Some err)
    then show ?thesis using i1 Cons.prems(2) s by simp
  qed
qed

lemma parse_csv_file_preserves:
  assumes step: "\<And>r h a i t w r' w'. r \<in> set rows \<Longrightarrow> row_headline r = Some h \<Longrightarrow> I w \<Longrightarrow>
            process_ticker env p h (row_time r) (row_description r) a i t w = (r', w') \<Longrightarrow> I w'"
      and frame: "\<And>w w'. files w' = files w \<Longrightarrow> I w \<Longrightarrow> I w'"
      and start: "I w"
  shows "I (wstate (snd (parse_csv_file env p rows w)))"
proof -
  let ?st = "\<lparr>processed_count = 0, successful_analyses = 0, wstate = w\<rparr>"
  obtain res st' where r: "process_rows env p rows ?st = (res, st')"
    using prod.exhaust by blast
  have "I (wstate st')"
  proof (rule process_rows_preserves [of rows I env p ?st res st'])
    fix r h a i t w r' w'
    assume "r \<in> set rows" "row_headline r = Some h" "I w"
      "process_ticker env p h (row_time r) (row_description r) a i t w = (r', w')"
    then show "I w'" using step by blast
  next
    fix w w' :: world
    assume "files w' = files w" "I w"
    then show "I w'" using frame by blast
  next
    show "I (wstate ?st)" using start by simp
  next
    show "process_rows env p rows ?st = (res, st')" using r .
  qed
  then show ?thesis by (simp add: parse_csv_file_def r)
qed


subsection \<open>No duplicates\<close>

lemma store_ok_frame: "files w' = files w \<Longrightarrow> store_ok w \<Longrightarrow> store_ok w'"
  by (simp add: store_ok_def)

text \<open>
  C1. A store in which every readable file holds a collection without two entries of
  the same headline and timestamp stays such a store through every run of
  \<^verbatim>\<open>parse_csv_file\<close>, completed or ended by an exception; the empty store is one. After
  an attempt to add an entry for a ticker has succeeded, the collection of that ticker
  holds exactly one entry with that headline and timestamp, and every later attempt with
  the same headline and timestamp for the same ticker, whatever else it carries, leaves
  all files as they are.
\<close>

theorem dedup_invariant:
  assumes "store_ok w"
  shows "store_ok (wstate (snd (parse_csv_file env p rows w)))
     \<and> (\<forall>h ts d a i t w1.
          t \<noteq> JStr ''UNKNOWN'' \<and> t \<noteq> JStr []
          \<and> process_ticker env p h ts d a i t w = (None, w1) \<longrightarrow>
            store_ok w1
            \<and> length (filter (\<lambda>e. dedup_key e = (JStr h, jopt ts))
                 (stored w1 (ticker_file env p t))) = 1
            \<and> (\<forall>d' a' i' r2 w2.
                 process_ticker env p h ts d' a' i' t w1 = (r2, w2) \<longrightarrow> files w2 = files w1))"
proof (intro conjI allI impI)
  show "store_ok (wstate (snd (parse_csv_file env p rows w)))"
  proof (rule parse_csv_file_preserves [of rows store_ok])
    fix r h a i t w r' w'
    assume "store_ok w"
      "process_ticker env p h (row_time r) (row_description r) a i t w = (r', w')"
    then show "store_ok w'" using process_ticker_store by blast
  next
    fix w w' :: world
    assume "files w' = files w" "store_ok w"
    then show "store_ok w'" by (rule store_ok_frame)
  next
    show "store_ok w" using assms .
  qed
next
  fix h ts d a i t w1
  assume a: "t \<noteq> JStr ''UNKNOWN'' \<and> t \<noteq> JStr []
          \<and> process_ticker env p h ts d a i t w = (None, w1)"
  then have run: "process_ticker env p h ts d a i t w = (None, w1)" by simp
  from process_ticker_store [OF assms run] a
  have ok1: "store_ok w1"
    and one: "length (filter (\<lambda>e. dedup_key e = (JStr h, jopt ts))
                 (stored w1 (ticker_file env p t))) = 1"
    by simp_all
  show "store_ok w1" using ok1 .
  show "length (filter (\<lambda>e. dedup_key e = (JStr h, jopt ts))
                 (stored w1 (ticker_file env p t))) = 1" using one .
  fix d' a' i' r2 w2
  assume again: "process_ticker env p h ts d' a' i' t w1 = (r2, w2)"
  have "filter (\<lambda>e. dedup_key e = (JStr h, jopt ts)) (stored w1 (ticker_file env p t)) \<noteq> []"
    using one by auto
  then have "(JStr h, jopt ts) \<in> set (map dedup_key (stored w1 (ticker_file env p t)))"
    by (force simp: filter_empty_conv)
  then show "files w2 = files w1"
    using process_ticker_store [OF ok1 again] by simp
qed


lemma store_ok_empty: "store_ok empty_world"
  by (simp add: store_ok_def empty_world_def)

lemma apple_ticker_file:
  "ticker_file apple_env openai_parser (JStr ''AAPL'') = ''company_news/AAPL.json''"
  by code_simp

theorem dedup_invariant_witness:
  "store_ok empty_world
   \<and> store_ok (wstate (snd (parse_csv_file apple_env openai_parser [row_a, row_a] empty_world)))
   \<and> stored (wstate (snd (parse_csv_file apple_env openai_parser [row_a, row_a] empty_world)))
        ''company_news/AAPL.json'' = [apple_entry]
   \<and> JStr ''AAPL'' \<noteq> JStr ''UNKNOWN'' \<and> JStr ''AAPL'' \<noteq> JStr []
   \<and> process_ticker apple_env openai_parser ''Apple beats estimates'' (Some ''2024-01-01'')
        (Some ''Strong quarter'') apple_analysis 0 (JStr ''AAPL'') empty_world
       = (None, apple_stored)
   \<and> length (filter (\<lambda>e. dedup_key e = (JStr ''Apple beats estimates'', JStr ''2024-01-01''))
        (stored apple_stored ''company_news/AAPL.json'')) = 1
   \<and> files (snd (process_ticker apple_env openai_parser ''Apple beats estimates''
        (Some ''2024-01-01'') (Some ''Another text'') apple_analysis 1 (JStr ''AAPL'') apple_stored))
       = files apple_stored"
proof -
  note inst = dedup_invariant [OF store_ok_empty, of apple_env openai_parser "[row_a, row_a]"]
  have a: "store_ok (wstate (snd (parse_csv_file apple_env openai_parser [row_a, row_a] empty_world)))"
    using inst by simp
  have b: "stored (wstate (snd (parse_csv_file apple_env openai_parser [row_a, row_a] empty_world)))
        ''company_news/AAPL.json'' = [apple_entry]"
    by code_simp
  have c: "JStr ''AAPL'' \<noteq> JStr ''UNKNOWN'' \<and> JStr ''AAPL'' \<noteq> JStr []"
    by simp
  have be: "build_entry ''Apple beats estimates'' (Some ''2024-01-01'') (Some ''Strong quarter'')
      apple_analysis 0 (JStr ''AAPL'') ''2024-01-01T00:00:00'' = Inr apple_entry"
    by code_simp
  have ck: "clock apple_env n = ''2024-01-01T00:00:00''" for n
    by (simp add: apple_env_def)
  have d: "process_ticker apple_env openai_parser ''Apple beats estimates'' (Some ''2024-01-01'')
        (Some ''Strong quarter'') apple_analysis 0 (JStr ''AAPL'') empty_world
       = (None, apple_stored)"
    using be
    by (simp add: process_ticker_def append_if_new_def load_existing_data_def
        save_ticker_data_def apple_ticker_file empty_world_def apple_stored_def ck)
  have hyp: "JStr ''AAPL'' \<noteq> JStr ''UNKNOWN'' \<and> JStr ''AAPL'' \<noteq> JStr []
      \<and> process_ticker apple_env openai_parser ''Apple beats estimates'' (Some ''2024-01-01'')
        (Some ''Strong quarter'') apple_analysis 0 (JStr ''AAPL'') empty_world
       = (None, apple_stored)"
    using c d by simp
  note step = inst [THEN conjunct2, rule_format, OF hyp]
  have e: "length (filter (\<lambda>e. dedup_key e = (JStr ''Apple beats estimates'', JStr ''2024-01-01''))
        (stored apple_stored ''company_news/AAPL.json'')) = 1"
    using step [THEN conjunct2, THEN conjunct1] by (simp add: apple_ticker_file jopt_def)
  have f: "files (snd (process_ticker apple_env openai_parser ''Apple beats estimates''
        (Some ''2024-01-01'') (Some ''Another text'') apple_analysis 1 (JStr ''AAPL'') apple_stored))
       = files apple_stored"
    by (rule step [THEN conjunct2, THEN conjunct2, rule_format]) (rule prod.collapse [symmetric])
  show ?thesis
    using store_ok_empty a b c d e f by simp
qed

subsection \<open>Where an entry comes from\<close>









end
